theory Spec2Isabelle
  imports Complex_Main "HOL-Library.Sublist" "HOL-Library.Multiset"
begin

section \<open>Python and SQLite primitives used by api.py\<close>

text \<open>
  Strings are modelled as lists of ASCII characters. The case mappings of Python
  (\<^verbatim>\<open>str.lower\<close>, \<^verbatim>\<open>str.upper\<close>) and of SQLite (\<^verbatim>\<open>LOWER\<close>, \<^verbatim>\<open>LIKE\<close>) agree on
  ASCII: they exchange \<^verbatim>\<open>a-z\<close> and \<^verbatim>\<open>A-Z\<close> and leave every other ASCII character
  alone. Characters beyond ASCII, where Python follows the Unicode tables and
  SQLite does not, are outside the model.
\<close>

definition ascii_lowercase :: string where
  "ascii_lowercase = ''abcdefghijklmnopqrstuvwxyz''"

definition ascii_uppercase :: string where
  "ascii_uppercase = ''ABCDEFGHIJKLMNOPQRSTUVWXYZ''"

definition digits :: string where
  "digits = ''0123456789''"

definition upper_char :: "char \<Rightarrow> char" where
  "upper_char c =
     (case map_of (zip ascii_lowercase ascii_uppercase) c of Some u \<Rightarrow> u | None \<Rightarrow> c)"

definition lower_char :: "char \<Rightarrow> char" where
  "lower_char c =
     (case map_of (zip ascii_uppercase ascii_lowercase) c of Some l \<Rightarrow> l | None \<Rightarrow> c)"

definition lower :: "string \<Rightarrow> string" where
  "lower s = map lower_char s"

text \<open>
  \<^verbatim>\<open>str.isspace\<close> on ASCII: tab, line feed, vertical tab, form feed, carriage
  return, the four separators \<^verbatim>\<open>0x1c-0x1f\<close>, and the space.
\<close>

definition isspace :: "char \<Rightarrow> bool" where
  "isspace c =
     (c \<in> set [CHR 0x09, CHR 0x0A, CHR 0x0B, CHR 0x0C, CHR 0x0D,
                CHR 0x1C, CHR 0x1D, CHR 0x1E, CHR 0x1F, CHR 0x20])"

text \<open>
  \<^verbatim>\<open>str.split()\<close> with no argument: runs of whitespace separate the tokens, and no
  empty token is produced. The first argument is the token being scanned.
\<close>

fun split_from :: "string \<Rightarrow> string \<Rightarrow> string list" where
  "split_from w [] = (if w = [] then [] else [w])"
| "split_from w (c # cs) =
     (if isspace c then (if w = [] then split_from [] cs else w # split_from [] cs)
      else split_from (w @ [c]) cs)"

definition split_ws :: "string \<Rightarrow> string list" where
  "split_ws s = split_from [] s"

text \<open>\<^verbatim>\<open>str(n)\<close> for a natural number: its decimal digits, most significant first.\<close>

definition digit_char :: "nat \<Rightarrow> char" where
  "digit_char d = digits ! d"

function str_nat :: "nat \<Rightarrow> string" where
  "str_nat n =
     (if n < 10 then [digit_char n] else str_nat (n div 10) @ [digit_char (n mod 10)])"
  by pat_completeness auto
termination
  by (relation "measure id") auto

declare str_nat.simps [simp del]

text \<open>
  \<^verbatim>\<open>str.zfill(width)\<close> on a string without sign: zeros are added on the left until
  the string has \<open>width\<close> characters; a longer string is returned as it is.
\<close>

definition zfill :: "nat \<Rightarrow> string \<Rightarrow> string" where
  "zfill width s = replicate (width - length s) (CHR ''0'') @ s"

text \<open>
  SQLite's \<^verbatim>\<open>X LIKE P\<close> (no \<^verbatim>\<open>ESCAPE\<close> clause, default settings): in the pattern
  \<^verbatim>\<open>%\<close> matches any run of characters, also the empty one, \<^verbatim>\<open>_\<close> matches exactly
  one character, and any other character matches itself without regard to ASCII
  case. The first argument is the pattern, the second the text.
\<close>

fun like :: "string \<Rightarrow> string \<Rightarrow> bool" where
  "like [] s = (s = [])"
| "like (p # ps) [] = (p = CHR ''%'' \<and> like ps [])"
| "like (p # ps) (c # cs) =
     (if p = CHR ''%'' then like ps (c # cs) \<or> like (p # ps) cs
      else if p = CHR ''_'' then like ps cs
      else lower_char p = lower_char c \<and> like ps cs)"

section \<open>Errors\<close>

text \<open>
  The \<^verbatim>\<open>detail\<close> texts of the three \<^verbatim>\<open>HTTPException\<close>s raised by api.py:
  "Direccion no encontrada" (404), "El codigo ya existe" (400) and
  "No hay campos para actualizar" (400). The other constructors are Python
  exceptions that no handler of api.py catches.
\<close>

datatype detail = Direccion_no_encontrada | El_codigo_ya_existe | No_hay_campos_para_actualizar

datatype error = HTTPException nat detail | IndexError | TypeError | ValueError

section \<open>The table and the request models\<close>

text \<open>
  One row of the table \<^verbatim>\<open>addresses\<close> created by \<^verbatim>\<open>init_db\<close>. Only \<^verbatim>\<open>id\<close> (here
  \<open>rowid\<close>) and \<^verbatim>\<open>codigo\<close> are \<^verbatim>\<open>NOT NULL\<close>; a nullable column is an option, with
  \<open>None\<close> for SQL \<^verbatim>\<open>NULL\<close>. \<^verbatim>\<open>fecha_creacion\<close> is filled by
  \<^verbatim>\<open>DEFAULT CURRENT_TIMESTAMP\<close>, a text \<^verbatim>\<open>YYYY-MM-DD HH:MM:SS\<close> whose text order is
  the order of time; it is modelled as the number of seconds it denotes. The
  columns \<^verbatim>\<open>lat\<close> and \<^verbatim>\<open>lng\<close> hold Python floats, modelled as real numbers:
  arithmetic on them is exact in this model.
\<close>

record address_row =
  rowid :: nat
  codigo :: string
  provincia :: "string option"
  municipio :: "string option"
  sector :: "string option"
  calle :: "string option"
  numero :: "string option"
  referencia :: "string option"
  lat :: "real option"
  lng :: "real option"
  verificado :: "int option"
  fuente :: "string option"
  creado_por :: "string option"
  notas :: "string option"
  fecha_creacion :: nat

text \<open>The table: its rows in the order of insertion.\<close>

type_synonym db = "address_row list"


section \<open>insert_address: the code of a new address\<close>

definition stop_words :: "string list" where
  "stop_words = [''de'', ''del'', ''la'', ''el'', ''los'', ''las'', ''y'']"

text \<open>\<^verbatim>\<open>words = [w for w in address.sector.split() if w.lower() not in stop_words]\<close>\<close>

definition words :: "string \<Rightarrow> string list" where
  "words sector_name = filter (\<lambda>w. lower w \<notin> set stop_words) (split_ws sector_name)"

text \<open>\<^verbatim>\<open>w[0].upper()\<close>: indexing an empty string raises \<^verbatim>\<open>IndexError\<close>.\<close>

definition first_upper :: "string \<Rightarrow> error + string" where
  "first_upper w = (case w of [] \<Rightarrow> Inl IndexError | c # _ \<Rightarrow> Inr [upper_char c])"

text \<open>\<^verbatim>\<open>"".join(w[0].upper() for w in words)\<close>\<close>

fun join_first_upper :: "string list \<Rightarrow> error + string" where
  "join_first_upper [] = Inr []"
| "join_first_upper (w # ws) =
     (case first_upper w of
        Inl e \<Rightarrow> Inl e
      | Inr u \<Rightarrow> (case join_first_upper ws of Inl e \<Rightarrow> Inl e | Inr r \<Rightarrow> Inr (u @ r)))"

text \<open>\<^verbatim>\<open>abbr = "".join(...)[:5] if words else "XXX"\<close>\<close>

definition abbr :: "string \<Rightarrow> error + string" where
  "abbr sector_name =
     (let ws = words sector_name in
      if ws \<noteq> [] then
        (case join_first_upper ws of Inl e \<Rightarrow> Inl e | Inr s \<Rightarrow> Inr (take 5 s))
      else Inr ''XXX'')"

text \<open>
  Lines 143-150 of api.py, the branch that generates the code. The query
  \<^verbatim>\<open>SELECT COUNT(*) ... WHERE codigo LIKE ?\<close> is the parameter \<open>count_like\<close>: it
  receives the pattern \<^verbatim>\<open>prefix + "%"\<close> and returns the count.
\<close>

definition generate_codigo :: "string \<Rightarrow> (string \<Rightarrow> nat) \<Rightarrow> error + string" where
  "generate_codigo sector_name count_like =
     (case abbr sector_name of
        Inl e \<Rightarrow> Inl e
      | Inr ab \<Rightarrow>
          (let prefix = ''VG-MAO-'' @ ab @ ''-'';
               count = count_like (prefix @ ''%'')
           in Inr (prefix @ zfill 5 (str_nat (count + 1)))))"

text \<open>\<^verbatim>\<open>SELECT COUNT(*) FROM addresses WHERE codigo LIKE ?\<close>\<close>

definition count_codigo_like :: "db \<Rightarrow> string \<Rightarrow> nat" where
  "count_codigo_like d pat = length (filter (\<lambda>r. like pat (codigo r)) d)"


section \<open>insert_address: the insertion\<close>



text \<open>\<^verbatim>\<open>SELECT * FROM addresses WHERE codigo = ?\<close> followed by \<^verbatim>\<open>fetchone()\<close>\<close>

definition select_by_codigo :: "db \<Rightarrow> string \<Rightarrow> address_row option" where
  "select_by_codigo d c = find (\<lambda>r. codigo r = c) d"

text \<open>
  The row read back after a commit. \<open>Inr r\<close> stands for the row that the final
  \<^verbatim>\<open>fetchone()\<close> returns; the response body that \<^verbatim>\<open>dict(...)\<close> builds from it is
  not part of the model. \<^verbatim>\<open>dict(None)\<close> raises \<^verbatim>\<open>TypeError\<close>.
\<close>

definition fetched :: "db \<Rightarrow> string \<Rightarrow> error + address_row" where
  "fetched d c = (case select_by_codigo d c of None \<Rightarrow> Inl TypeError | Some r \<Rightarrow> Inr r)"


section \<open>update_address\<close>

text \<open>
  \<^verbatim>\<open>class AddressUpdate(BaseModel)\<close>. \<^verbatim>\<open>address.dict(exclude_unset=True)\<close> tells a
  field that the request did not mention (\<open>Unset\<close>) from one it gave, and a given
  field is \<^verbatim>\<open>null\<close> (\<open>Given None\<close>) or has a value. \<^verbatim>\<open>codigo\<close> is required.
\<close>

datatype 'a field = Unset | Given "'a option"

record AddressUpdate =
  u_codigo :: string
  u_provincia :: "string field"
  u_municipio :: "string field"
  u_sector :: "string field"
  u_calle :: "string field"
  u_numero :: "string field"
  u_referencia :: "string field"
  u_lat :: "real field"
  u_lng :: "real field"
  u_verificado :: "int field"
  u_fuente :: "string field"
  u_creado_por :: "string field"
  u_notas :: "string field"

text \<open>One entry \<^verbatim>\<open>"{field} = ?"\<close> of \<^verbatim>\<open>updates\<close> together with its entry of \<^verbatim>\<open>values\<close>.\<close>

datatype assignment =
    Set_provincia string | Set_municipio string | Set_sector string | Set_calle string
  | Set_numero string | Set_referencia string | Set_lat real | Set_lng real
  | Set_verificado int | Set_fuente string | Set_creado_por string | Set_notas string

text \<open>
  One round of the loop over \<^verbatim>\<open>address.dict(exclude_unset=True).items()\<close> for a
  field other than \<^verbatim>\<open>codigo\<close>: an entry is appended when the field was given and
  its value is not \<^verbatim>\<open>None\<close>.
\<close>

definition entry :: "('a \<Rightarrow> assignment) \<Rightarrow> 'a field \<Rightarrow> assignment list" where
  "entry mk f = (case f of Unset \<Rightarrow> [] | Given None \<Rightarrow> [] | Given (Some v) \<Rightarrow> [mk v])"

text \<open>
  The whole loop, in the order of the fields of the class; the round for
  \<^verbatim>\<open>codigo\<close> appends nothing (\<^verbatim>\<open>field != "codigo"\<close>).
\<close>

definition updates :: "AddressUpdate \<Rightarrow> assignment list" where
  "updates address =
     entry Set_provincia (u_provincia address) @ entry Set_municipio (u_municipio address) @
     entry Set_sector (u_sector address) @ entry Set_calle (u_calle address) @
     entry Set_numero (u_numero address) @ entry Set_referencia (u_referencia address) @
     entry Set_lat (u_lat address) @ entry Set_lng (u_lng address) @
     entry Set_verificado (u_verificado address) @ entry Set_fuente (u_fuente address) @
     entry Set_creado_por (u_creado_por address) @ entry Set_notas (u_notas address)"

fun assign :: "assignment \<Rightarrow> address_row \<Rightarrow> address_row" where
  "assign (Set_provincia v) r = r\<lparr>provincia := Some v\<rparr>"
| "assign (Set_municipio v) r = r\<lparr>municipio := Some v\<rparr>"
| "assign (Set_sector v) r = r\<lparr>sector := Some v\<rparr>"
| "assign (Set_calle v) r = r\<lparr>calle := Some v\<rparr>"
| "assign (Set_numero v) r = r\<lparr>numero := Some v\<rparr>"
| "assign (Set_referencia v) r = r\<lparr>referencia := Some v\<rparr>"
| "assign (Set_lat v) r = r\<lparr>lat := Some v\<rparr>"
| "assign (Set_lng v) r = r\<lparr>lng := Some v\<rparr>"
| "assign (Set_verificado v) r = r\<lparr>verificado := Some v\<rparr>"
| "assign (Set_fuente v) r = r\<lparr>fuente := Some v\<rparr>"
| "assign (Set_creado_por v) r = r\<lparr>creado_por := Some v\<rparr>"
| "assign (Set_notas v) r = r\<lparr>notas := Some v\<rparr>"

text \<open>\<^verbatim>\<open>UPDATE addresses SET ... WHERE codigo = ?\<close>\<close>

definition sql_update :: "assignment list \<Rightarrow> string \<Rightarrow> db \<Rightarrow> db" where
  "sql_update us c d = map (\<lambda>r. if codigo r = c then fold assign us r else r) d"

text \<open>
  \<^verbatim>\<open>update_address\<close>: \<open>c\<close> is the code of the path, \<open>address\<close> the body. The code in
  the body is never read.
\<close>

definition update_address :: "string \<Rightarrow> AddressUpdate \<Rightarrow> db \<Rightarrow> (error + address_row) \<times> db" where
  "update_address c address d =
     (if select_by_codigo d c = None then (Inl (HTTPException 404 Direccion_no_encontrada), d)
      else
        (let us = updates address in
         if us = [] then (Inl (HTTPException 400 No_hay_campos_para_actualizar), d)
         else (let d' = sql_update us c d in (fetched d' c, d'))))"

section \<open>get_addresses\<close>








section \<open>estimate_ride\<close>

text \<open>
  The functions of the module \<^verbatim>\<open>math\<close> on real numbers. \<^verbatim>\<open>math.radians(None)\<close>
  raises \<^verbatim>\<open>TypeError\<close>; \<^verbatim>\<open>math.sqrt\<close> and \<^verbatim>\<open>math.asin\<close> raise \<^verbatim>\<open>ValueError\<close>
  outside their domains.
\<close>

definition radians :: "real option \<Rightarrow> error + real" where
  "radians x = (case x of None \<Rightarrow> Inl TypeError | Some v \<Rightarrow> Inr (v * pi / 180))"

definition math_sqrt :: "real \<Rightarrow> error + real" where
  "math_sqrt x = (if x < 0 then Inl ValueError else Inr (sqrt x))"

definition math_asin :: "real \<Rightarrow> error + real" where
  "math_asin x = (if x < - 1 \<or> 1 < x then Inl ValueError else Inr (arcsin x))"

text \<open>\<^verbatim>\<open>int(x)\<close> of a float truncates towards zero.\<close>

definition py_int :: "real \<Rightarrow> int" where
  "py_int x = (if 0 \<le> x then \<lfloor>x\<rfloor> else \<lceil>x\<rceil>)"

text \<open>
  \<^verbatim>\<open>round(x)\<close> gives the nearest integer, and of two equally near integers the even
  one; \<^verbatim>\<open>round(x, n)\<close> does the same at the \<open>n\<close>-th decimal.
\<close>

definition py_round :: "real \<Rightarrow> int" where
  "py_round x =
     (let f = \<lfloor>x\<rfloor>; r = x - of_int f
      in if r < 1 / 2 then f else if 1 / 2 < r then f + 1 else if even f then f else f + 1)"

definition py_round_ndigits :: "real \<Rightarrow> nat \<Rightarrow> real" where
  "py_round_ndigits x n = of_int (py_round (x * 10 ^ n)) / 10 ^ n"

text \<open>The body of \<^verbatim>\<open>POST /ride/estimate\<close>; \<^verbatim>\<open>data.get\<close> gives \<^verbatim>\<open>None\<close> for a missing key.\<close>

record ride_data =
  pickup_codigo :: "string option"
  dropoff_codigo :: "string option"

text \<open>
  The three values that the f-string of \<^verbatim>\<open>summary\<close> interpolates between its
  literal pieces (" km", "min", "RD$"), in their order.
\<close>

record summary_values =
  summary_km :: real
  summary_min :: int
  summary_rd :: int

record estimate =
  distance_km :: real
  estimated_minutes :: int
  estimated_fare_rdp :: real
  summary :: summary_values

text \<open>\<^verbatim>\<open>SELECT lat, lng FROM addresses WHERE codigo = ?\<close>; no row has the code \<^verbatim>\<open>NULL\<close>.\<close>

definition select_lat_lng :: "db \<Rightarrow> string option \<Rightarrow> (real option \<times> real option) option" where
  "select_lat_lng d c =
     (case c of
        None \<Rightarrow> None
      | Some k \<Rightarrow> map_option (\<lambda>r. (lat r, lng r)) (find (\<lambda>r. codigo r = k) d))"

text \<open>Lines 241-250: the haversine distance of two points given in radians.\<close>

definition haversine :: "real \<Rightarrow> real \<Rightarrow> real \<Rightarrow> real \<Rightarrow> error + real" where
  "haversine lat1 lng1 lat2 lng2 =
     (let R = 6371;
          dlat = lat2 - lat1;
          dlng = lng2 - lng1;
          a = (sin (dlat / 2))\<^sup>2 + cos lat1 * cos lat2 * (sin (dlng / 2))\<^sup>2
      in case math_sqrt a of
           Inl e \<Rightarrow> Inl e
         | Inr s \<Rightarrow> (case math_asin s of Inl e \<Rightarrow> Inl e | Inr t \<Rightarrow> Inr (R * (2 * t))))"

text \<open>Lines 253-265: fare, minutes and the returned dictionary.\<close>

definition tarifa :: "real \<Rightarrow> estimate" where
  "tarifa km =
     (let BASE_FARE = 75; COST_PER_KM = 35; AVG_SPEED = 25;
          fare = BASE_FARE + km * COST_PER_KM;
          minutes = py_int (km / AVG_SPEED * 60)
      in \<lparr>distance_km = py_round_ndigits km 2,
          estimated_minutes = max 3 minutes,
          estimated_fare_rdp = py_round_ndigits fare 2,
          summary = \<lparr>summary_km = py_round_ndigits km 1, summary_min = max 3 minutes,
                     summary_rd = py_round fare\<rparr>\<rparr>)"

definition estimate_ride :: "ride_data \<Rightarrow> db \<Rightarrow> error + estimate" where
  "estimate_ride data d =
     (case select_lat_lng d (pickup_codigo data) of
        None \<Rightarrow> Inl (HTTPException 404 Direccion_no_encontrada)
      | Some pickup \<Rightarrow>
         (case select_lat_lng d (dropoff_codigo data) of
            None \<Rightarrow> Inl (HTTPException 404 Direccion_no_encontrada)
          | Some dropoff \<Rightarrow>
             (case radians (fst pickup) of Inl e \<Rightarrow> Inl e | Inr lat1 \<Rightarrow>
              case radians (snd pickup) of Inl e \<Rightarrow> Inl e | Inr lng1 \<Rightarrow>
              case radians (fst dropoff) of Inl e \<Rightarrow> Inl e | Inr lat2 \<Rightarrow>
              case radians (snd dropoff) of Inl e \<Rightarrow> Inl e | Inr lng2 \<Rightarrow>
              case haversine lat1 lng1 lat2 lng2 of Inl e \<Rightarrow> Inl e | Inr km \<Rightarrow>
              Inr (tarifa km))))"

section \<open>Notions of the specification\<close>

subsection \<open>Codes\<close>

text \<open>
  The abbreviation of a sector as the specification words it: the sector is split
  on whitespace, the tokens whose lowercase form is a stop word are dropped, and
  the first characters of the remaining tokens, uppercased, are concatenated and
  cut to at most five characters; "XXX" when no token remains.
\<close>

definition spec_tokens :: "string \<Rightarrow> string list" where
  "spec_tokens s =
     filter (\<lambda>t. lower t \<notin> {''de'', ''del'', ''la'', ''el'', ''los'', ''las'', ''y''}) (split_ws s)"

definition spec_abbreviation :: "string \<Rightarrow> string" where
  "spec_abbreviation s =
     (if spec_tokens s = [] then ''XXX''
      else take 5 (concat (map (\<lambda>t. map upper_char (take 1 t)) (spec_tokens s))))"

text \<open>
  The decimal representation of \<open>n\<close> padded with zeros on the left to \<open>w\<close> digits,
  and the number that a string of digits denotes.
\<close>

definition zero_padded :: "nat \<Rightarrow> nat \<Rightarrow> string" where
  "zero_padded w n = replicate (w - length (str_nat n)) (CHR ''0'') @ str_nat n"

definition digit_value :: "char \<Rightarrow> nat" where
  "digit_value c = (case map_of (zip digits [0..<10]) c of Some d \<Rightarrow> d | None \<Rightarrow> 0)"

definition decimal_value :: "string \<Rightarrow> nat" where
  "decimal_value s = fold (\<lambda>c v. 10 * v + digit_value c) s 0"

text \<open>The pattern \<^verbatim>\<open>VG-MAO-<1 to 5 uppercase letters>-<5 digits>\<close>.\<close>

definition matches_code_pattern :: "string \<Rightarrow> bool" where
  "matches_code_pattern c =
     (let ab = takeWhile (\<lambda>x. x \<in> set ascii_uppercase) (drop 7 c);
          rest = drop (7 + length ab) c
      in take 7 c = ''VG-MAO-'' \<and> 1 \<le> length ab \<and> length ab \<le> 5 \<and>
         take 1 rest = ''-'' \<and> length (drop 1 rest) = 5 \<and>
         list_all (\<lambda>x. x \<in> set digits) (drop 1 rest))"

definition ascii_letters :: string where
  "ascii_letters = ascii_lowercase @ ascii_uppercase"

text \<open>A prefix count that answers \<open>n\<close> whatever the pattern.\<close>

definition fixed_count :: "nat \<Rightarrow> string \<Rightarrow> nat" where
  "fixed_count n pat = n"


subsection \<open>Updates\<close>

text \<open>
  A field of a patch is applicable when it is present and not null. The merge of
  the specification applies the applicable fields and keeps the stored value of
  every other field.
\<close>

definition applicable :: "'a field \<Rightarrow> bool" where
  "applicable f = (case f of Unset \<Rightarrow> False | Given None \<Rightarrow> False | Given (Some v) \<Rightarrow> True)"

definition merged :: "'a field \<Rightarrow> 'a option \<Rightarrow> 'a option" where
  "merged f old = (case f of Unset \<Rightarrow> old | Given None \<Rightarrow> old | Given (Some v) \<Rightarrow> Some v)"


text \<open>The patch has no applicable field.\<close>

definition no_applicable_field :: "AddressUpdate \<Rightarrow> bool" where
  "no_applicable_field p =
     (\<not> applicable (u_provincia p) \<and> \<not> applicable (u_municipio p) \<and>
      \<not> applicable (u_sector p) \<and> \<not> applicable (u_calle p) \<and>
      \<not> applicable (u_numero p) \<and> \<not> applicable (u_referencia p) \<and>
      \<not> applicable (u_lat p) \<and> \<not> applicable (u_lng p) \<and>
      \<not> applicable (u_verificado p) \<and> \<not> applicable (u_fuente p) \<and>
      \<not> applicable (u_creado_por p) \<and> \<not> applicable (u_notas p))"

text \<open>
  A property of the value of a field, when the field is present and not null, and
  the patches whose applicable fields all have the value that the row has already.
\<close>

fun field_holds :: "('a \<Rightarrow> bool) \<Rightarrow> 'a field \<Rightarrow> bool" where
  "field_holds P Unset = True"
| "field_holds P (Given None) = True"
| "field_holds P (Given (Some v)) = P v"

definition equal_values :: "AddressUpdate \<Rightarrow> address_row \<Rightarrow> bool" where
  "equal_values p r =
     (field_holds (\<lambda>v. provincia r = Some v) (u_provincia p) \<and>
      field_holds (\<lambda>v. municipio r = Some v) (u_municipio p) \<and>
      field_holds (\<lambda>v. sector r = Some v) (u_sector p) \<and>
      field_holds (\<lambda>v. calle r = Some v) (u_calle p) \<and>
      field_holds (\<lambda>v. numero r = Some v) (u_numero p) \<and>
      field_holds (\<lambda>v. referencia r = Some v) (u_referencia p) \<and>
      field_holds (\<lambda>v. lat r = Some v) (u_lat p) \<and>
      field_holds (\<lambda>v. lng r = Some v) (u_lng p) \<and>
      field_holds (\<lambda>v. verificado r = Some v) (u_verificado p) \<and>
      field_holds (\<lambda>v. fuente r = Some v) (u_fuente p) \<and>
      field_holds (\<lambda>v. creado_por r = Some v) (u_creado_por p) \<and>
      field_holds (\<lambda>v. notas r = Some v) (u_notas p))"

text \<open>A patch that mentions no field, and two patches derived from it.\<close>

definition empty_patch :: AddressUpdate where
  "empty_patch =
     \<lparr>u_codigo = ''VG-MAO-SJ-00001'', u_provincia = Unset, u_municipio = Unset,
      u_sector = Unset, u_calle = Unset, u_numero = Unset, u_referencia = Unset,
      u_lat = Unset, u_lng = Unset, u_verificado = Unset, u_fuente = Unset,
      u_creado_por = Unset, u_notas = Unset\<rparr>"

definition null_patch :: AddressUpdate where
  "null_patch = empty_patch\<lparr>u_calle := Given None, u_notas := Given None\<rparr>"


definition same_patch :: AddressUpdate where
  "same_patch = empty_patch\<lparr>u_municipio := Given (Some ''Mao''), u_lat := Given (Some 18.4432)\<rparr>"

text \<open>The table after the request \<open>jardines\<close> has been inserted into the empty table.\<close>

definition jardines_row :: address_row where
  "jardines_row =
     \<lparr>rowid = 1, codigo = ''VG-MAO-SJ-00001'', provincia = Some ''Valverde'',
      municipio = Some ''Mao'', sector = Some ''Sector Los Jardines'', calle = None,
      numero = None, referencia = None, lat = Some 18.4432, lng = Some (- 71.7533),
      verificado = Some 0, fuente = Some ''equipo'', creado_por = Some ''API'',
      notas = None, fecha_creacion = 100\<rparr>"

subsection \<open>Sequences of requests\<close>










text \<open>A table whose only row has the code "VG-MAO-SJ-00002", supplied by a client.\<close>

definition taken_row :: address_row where
  "taken_row = jardines_row\<lparr>codigo := ''VG-MAO-SJ-00002''\<rparr>"

subsection \<open>Search\<close>






subsection \<open>Fare estimate\<close>

text \<open>
  The great-circle distance of the specification, for two points given in
  degrees: the haversine formula with the Earth radius 6371 km.
\<close>

definition spec_distance_km :: "real \<Rightarrow> real \<Rightarrow> real \<Rightarrow> real \<Rightarrow> real" where
  "spec_distance_km lat1 lng1 lat2 lng2 =
     (let p1 = lat1 * pi / 180; l1 = lng1 * pi / 180;
          p2 = lat2 * pi / 180; l2 = lng2 * pi / 180;
          a = (sin ((p2 - p1) / 2))\<^sup>2 + cos p1 * cos p2 * (sin ((l2 - l1) / 2))\<^sup>2
      in 6371 * (2 * arcsin (sqrt a)))"


text \<open>A table with two addresses, and the two requests between them.\<close>

definition ride_table :: db where
  "ride_table =
     [jardines_row,
      taken_row\<lparr>rowid := 2, lat := Some 18.45, lng := Some (- 71.76), fecha_creacion := 200\<rparr>]"

definition ride_there :: ride_data where
  "ride_there =
     \<lparr>pickup_codigo = Some ''VG-MAO-SJ-00001'', dropoff_codigo = Some ''VG-MAO-SJ-00002''\<rparr>"

definition ride_back :: ride_data where
  "ride_back =
     \<lparr>pickup_codigo = Some ''VG-MAO-SJ-00002'', dropoff_codigo = Some ''VG-MAO-SJ-00001''\<rparr>"

section \<open>Properties of the primitives\<close>

lemma digit_char_in_digits: "d < 10 \<Longrightarrow> digit_char d \<in> set digits"
  unfolding digit_char_def by (rule nth_mem) (simp add: digits_def)

lemma str_nat_digits: "set (str_nat n) \<subseteq> set digits"
proof (induction n rule: str_nat.induct)
  case (1 n)
  show ?case
  proof (cases "n < 10")
    case True
    then show ?thesis by (simp add: str_nat.simps [of n] digit_char_in_digits)
  next
    case False
    with 1 show ?thesis by (simp add: str_nat.simps [of n] digit_char_in_digits)
  qed
qed

lemma str_nat_length: "0 < k \<Longrightarrow> n < 10 ^ k \<Longrightarrow> length (str_nat n) \<le> k"
proof (induction n arbitrary: k rule: str_nat.induct)
  case (1 n)
  show ?case
  proof (cases "n < 10")
    case True
    with 1(2) show ?thesis by (simp add: str_nat.simps [of n])
  next
    case False
    then obtain j where k: "k = Suc j"
      using 1(2) by (cases k) auto
    have "0 < j"
      using False 1(3) k by (cases j) auto
    moreover have "n div 10 < 10 ^ j"
      using 1(3) k by (simp add: less_mult_imp_div_less mult.commute)
    ultimately have "length (str_nat (n div 10)) \<le> j"
      using 1(1) False by simp
    then show ?thesis
      using False k by (simp add: str_nat.simps [of n])
  qed
qed

lemma digit_value_digit_char: "d < 10 \<Longrightarrow> digit_value (digit_char d) = d"
proof -
  have "\<forall>d\<in>set [0..<10]. digit_value (digit_char d) = d"
    by (simp add: upt_rec digit_value_def digit_char_def digits_def)
  then show "d < 10 \<Longrightarrow> digit_value (digit_char d) = d"
    by simp
qed

lemma decimal_value_snoc: "decimal_value (s @ [c]) = 10 * decimal_value s + digit_value c"
  by (simp add: decimal_value_def)

text \<open>
  \<open>str_nat\<close> and \<open>zero_padded\<close> write the number they are given, and \<open>zero_padded w\<close>
  has exactly \<open>w\<close> digits as long as the number is below \<open>10 ^ w\<close>.
\<close>

lemma decimal_value_str_nat: "decimal_value (str_nat n) = n"
proof (induction n rule: str_nat.induct)
  case (1 n)
  show ?case
  proof (cases "n < 10")
    case True
    then show ?thesis
      by (simp add: str_nat.simps [of n] decimal_value_def digit_value_digit_char)
  next
    case False
    with 1 have "decimal_value (str_nat (n div 10)) = n div 10"
      by simp
    then show ?thesis
      using False by (simp add: str_nat.simps [of n] decimal_value_snoc digit_value_digit_char)
  qed
qed

lemma decimal_value_zeros: "((\<lambda>v. 10 * v + digit_value (CHR ''0'')) ^^ k) 0 = 0"
  by (induction k) (simp_all add: digit_value_def digits_def upt_rec)

lemma decimal_value_zero_padded: "decimal_value (zero_padded w n) = n"
  using decimal_value_str_nat [of n]
  by (simp add: zero_padded_def decimal_value_def decimal_value_zeros)

lemma length_zero_padded: "n < 10 ^ w \<Longrightarrow> 0 < w \<Longrightarrow> length (zero_padded w n) = w"
  using str_nat_length [of w n] by (simp add: zero_padded_def)

lemma zfill_digits:
  assumes "set s \<subseteq> set digits"
  shows "set (zfill w s) \<subseteq> set digits"
proof -
  have "CHR ''0'' \<in> set digits"
    by (simp add: digits_def)
  then have "set (replicate (w - length s) (CHR ''0'')) \<subseteq> set digits"
    by (auto simp: set_replicate_conv_if)
  with assms show ?thesis
    by (simp add: zfill_def)
qed

lemma upper_char_letter:
  assumes "c \<in> set ascii_letters"
  shows "upper_char c \<in> set ascii_uppercase"
proof (cases "map_of (zip ascii_lowercase ascii_uppercase) c")
  case None
  have "length ascii_lowercase = length ascii_uppercase"
    by (simp add: ascii_lowercase_def ascii_uppercase_def)
  then have "c \<notin> set ascii_lowercase"
    using None by (simp add: map_of_zip_is_None)
  with assms have "c \<in> set ascii_uppercase"
    by (simp add: ascii_letters_def)
  then show ?thesis
    using None by (simp add: upper_char_def)
next
  case (Some u)
  then have "(c, u) \<in> set (zip ascii_lowercase ascii_uppercase)"
    by (rule map_of_SomeD)
  then have "u \<in> set ascii_uppercase"
    by (rule set_zip_rightD)
  then show ?thesis
    using Some by (simp add: upper_char_def)
qed

section \<open>The generated code\<close>

text \<open>\<^verbatim>\<open>split()\<close> produces no empty token, so \<^verbatim>\<open>w[0]\<close> never raises.\<close>

lemma split_from_nonempty: "t \<in> set (split_from w s) \<Longrightarrow> t \<noteq> []"
  by (induction s arbitrary: w) (auto split: if_splits)

lemma words_nonempty: "t \<in> set (words s) \<Longrightarrow> t \<noteq> []"
  by (auto simp: words_def split_ws_def dest: split_from_nonempty)

lemma join_first_upper_eq:
  "\<forall>t\<in>set ws. t \<noteq> [] \<Longrightarrow>
   join_first_upper ws = Inr (concat (map (\<lambda>t. map upper_char (take 1 t)) ws))"
  by (induction ws) (auto simp: first_upper_def split: list.splits)

lemma spec_tokens_words: "spec_tokens s = words s"
  by (simp add: spec_tokens_def words_def stop_words_def)

lemma abbr_spec: "abbr s = Inr (spec_abbreviation s)"
proof -
  have "\<forall>t\<in>set (words s). t \<noteq> []"
    by (auto dest: words_nonempty)
  then show ?thesis
    by (simp add: abbr_def spec_abbreviation_def spec_tokens_words join_first_upper_eq Let_def)
qed

lemma generate_codigo_spec:
  "generate_codigo s k =
     Inr (''VG-MAO-'' @ spec_abbreviation s @ ''-'' @
          zero_padded 5 (k (''VG-MAO-'' @ spec_abbreviation s @ ''-%'') + 1))"
  by (simp add: generate_codigo_def abbr_spec zero_padded_def zfill_def Let_def)

lemma concat_first:
  "\<forall>t\<in>set ws. t \<noteq> [] \<Longrightarrow>
   concat (map (\<lambda>t. map f (take 1 t)) ws) = map (\<lambda>t. f (hd t)) ws"
proof (induction ws)
  case Nil
  then show ?case by simp
next
  case (Cons w ws)
  then show ?case by (cases w) auto
qed

lemma abbr_letters:
  assumes "words s \<noteq> []" and "\<forall>w\<in>set (words s). hd w \<in> set ascii_letters"
  shows "1 \<le> length (spec_abbreviation s) \<and> length (spec_abbreviation s) \<le> 5 \<and>
         set (spec_abbreviation s) \<subseteq> set ascii_uppercase"
proof -
  let ?ws = "words s"
  let ?cat = "concat (map (\<lambda>t. map upper_char (take 1 t)) ?ws)"
  have ne: "\<forall>t\<in>set ?ws. t \<noteq> []"
    by (auto dest: words_nonempty)
  have cat: "?cat = map (\<lambda>t. upper_char (hd t)) ?ws"
    using ne by (rule concat_first)
  have "spec_abbreviation s = take 5 ?cat"
    using assms(1) by (simp add: spec_abbreviation_def spec_tokens_words)
  then have "spec_abbreviation s = take 5 (map (\<lambda>t. upper_char (hd t)) ?ws)"
    by (simp only: cat)
  moreover have "set (take 5 (map (\<lambda>t. upper_char (hd t)) ?ws)) \<subseteq> set ascii_uppercase"
    using assms(2) upper_char_letter by (auto dest!: in_set_takeD)
  moreover have "1 \<le> length (take 5 (map (\<lambda>t. upper_char (hd t)) ?ws))"
    using assms(1) by (cases ?ws) auto
  ultimately show ?thesis by simp
qed

lemma matches_code_patternI:
  assumes "1 \<le> length ab" "length ab \<le> 5" "set ab \<subseteq> set ascii_uppercase"
    and "length sq = 5" "set sq \<subseteq> set digits"
  shows "matches_code_pattern (''VG-MAO-'' @ ab @ ''-'' @ sq)"
proof -
  let ?c = "''VG-MAO-'' @ ab @ ''-'' @ sq"
  have d7: "drop 7 ?c = ab @ ''-'' @ sq" and t7: "take 7 ?c = ''VG-MAO-''"
    by simp_all
  have "CHR ''-'' \<notin> set ascii_uppercase"
    by (simp add: ascii_uppercase_def)
  then have tw: "takeWhile (\<lambda>x. x \<in> set ascii_uppercase) (ab @ ''-'' @ sq) = ab"
    using assms(3) by (subst takeWhile_append2) auto
  have "drop (7 + length ab) ?c = drop (length ab) (drop 7 ?c)"
    by (simp only: drop_drop add.commute)
  then have rest: "drop (7 + length ab) ?c = ''-'' @ sq"
    by (simp only: d7) simp
  have "list_all (\<lambda>x. x \<in> set digits) sq"
    using assms(5) by (auto simp: list_all_iff)
  then show ?thesis
    unfolding matches_code_pattern_def Let_def d7 tw rest t7
    using assms(1,2,4) by simp
qed

lemma abbr_jardines: "spec_abbreviation ''Sector Los Jardines'' = ''SJ''"
  by code_simp

lemma zero_padded_5_1: "zero_padded 5 (Suc 0) = ''00001''"
  by code_simp



lemma words_jardines: "words ''Sector Los Jardines'' = [''Sector'', ''Jardines'']"
  by code_simp

lemma words_27_febrero: "words ''27 de Febrero'' = [''27'', ''Febrero'']"
  by code_simp

lemma abbr_27_febrero: "spec_abbreviation ''27 de Febrero'' = ''2F''"
  by code_simp

lemma str_nat_100000: "str_nat 100000 = ''100000''"
  by (simp add: str_nat.simps digit_char_def digits_def)

text \<open>
  C2, as the code has it. For a sector with at least one token that is not a stop
  word, the generated code depends only on the sector and on the count returned
  for the pattern prefix + "%": two count queries that agree there give the same
  code. When moreover every such token begins with an ASCII letter and the count
  is below 99999, the code matches
  \<^verbatim>\<open>VG-MAO-<1 to 5 uppercase letters>-<5 digits>\<close>.
\<close>

theorem generate_codigo_deterministic_pattern:
  assumes "words s \<noteq> []"
  shows "\<exists>ab. abbr s = Inr ab \<and>
           (\<forall>k k'. k (''VG-MAO-'' @ ab @ ''-%'') = k' (''VG-MAO-'' @ ab @ ''-%'') \<longrightarrow>
                    generate_codigo s k = generate_codigo s k') \<and>
           ((\<forall>w\<in>set (words s). hd w \<in> set ascii_letters) \<longrightarrow>
            (\<forall>k. k (''VG-MAO-'' @ ab @ ''-%'') < 99999 \<longrightarrow>
                 (\<exists>c. generate_codigo s k = Inr c \<and> matches_code_pattern c)))"
proof (rule exI [of _ "spec_abbreviation s"], intro conjI allI impI)
  show "abbr s = Inr (spec_abbreviation s)"
    by (rule abbr_spec)
next
  fix k k' :: "string \<Rightarrow> nat"
  assume "k (''VG-MAO-'' @ spec_abbreviation s @ ''-%'') =
          k' (''VG-MAO-'' @ spec_abbreviation s @ ''-%'')"
  then show "generate_codigo s k = generate_codigo s k'"
    by (simp add: generate_codigo_spec)
next
  fix k :: "string \<Rightarrow> nat"
  let ?n = "k (''VG-MAO-'' @ spec_abbreviation s @ ''-%'') + 1"
  assume letters: "\<forall>w\<in>set (words s). hd w \<in> set ascii_letters"
    and small: "k (''VG-MAO-'' @ spec_abbreviation s @ ''-%'') < 99999"
  have ab: "1 \<le> length (spec_abbreviation s)" "length (spec_abbreviation s) \<le> 5"
    "set (spec_abbreviation s) \<subseteq> set ascii_uppercase"
    using abbr_letters [OF assms letters] by simp_all
  have "?n < 10 ^ 5"
    using small by simp
  then have len: "length (zero_padded 5 ?n) = 5"
    by (rule length_zero_padded) simp
  have "set (zero_padded 5 ?n) \<subseteq> set digits"
    using zfill_digits [OF str_nat_digits] by (simp add: zero_padded_def zfill_def)
  with ab len
  have "matches_code_pattern (''VG-MAO-'' @ spec_abbreviation s @ ''-'' @ zero_padded 5 ?n)"
    by (intro matches_code_patternI)
  then show "\<exists>c. generate_codigo s k = Inr c \<and> matches_code_pattern c"
    by (simp add: generate_codigo_spec)
qed

theorem generate_codigo_deterministic_pattern_witness:
  "words ''Sector Los Jardines'' \<noteq> [] \<and>
   list_all (\<lambda>w. hd w \<in> set ascii_letters) (words ''Sector Los Jardines'') \<and>
   fixed_count 0 (''VG-MAO-'' @ ''SJ'' @ ''-%'') < 99999 \<and>
   (\<exists>c. generate_codigo ''Sector Los Jardines'' (fixed_count 0) = Inr c \<and>
        matches_code_pattern c)"
proof -
  have ne: "words ''Sector Los Jardines'' \<noteq> []"
    by (simp add: words_jardines)
  have letters: "\<forall>w\<in>set (words ''Sector Los Jardines''). hd w \<in> set ascii_letters"
    by (simp add: words_jardines ascii_letters_def ascii_lowercase_def ascii_uppercase_def)
  have small: "fixed_count 0 (''VG-MAO-'' @ ''SJ'' @ ''-%'') < 99999"
    by (simp add: fixed_count_def)
  from generate_codigo_deterministic_pattern [OF ne]
  obtain ab where ab: "abbr ''Sector Los Jardines'' = Inr ab"
    and pat: "(\<forall>w\<in>set (words ''Sector Los Jardines''). hd w \<in> set ascii_letters) \<longrightarrow>
      (\<forall>k. k (''VG-MAO-'' @ ab @ ''-%'') < 99999 \<longrightarrow>
         (\<exists>c. generate_codigo ''Sector Los Jardines'' k = Inr c \<and> matches_code_pattern c))"
    by blast
  have "ab = ''SJ''"
    using ab by (simp add: abbr_spec abbr_jardines)
  with pat letters small
  have "\<exists>c. generate_codigo ''Sector Los Jardines'' (fixed_count 0) = Inr c \<and>
            matches_code_pattern c"
    by blast
  with ne letters small show ?thesis
    by (simp add: list_all_iff)
qed

text \<open>
  The claim as it is stated fails on the sector "27 de Febrero", whose first token
  begins with a digit, and at the count 99999, whose successor has six digits.
\<close>

theorem generate_codigo_pattern_counterexample:
  "words ''27 de Febrero'' \<noteq> [] \<and>
   generate_codigo ''27 de Febrero'' (count_codigo_like []) = Inr ''VG-MAO-2F-00001'' \<and>
   \<not> matches_code_pattern ''VG-MAO-2F-00001'' \<and>
   words ''Sector Los Jardines'' \<noteq> [] \<and>
   generate_codigo ''Sector Los Jardines'' (fixed_count 99999) = Inr ''VG-MAO-SJ-100000'' \<and>
   \<not> matches_code_pattern ''VG-MAO-SJ-100000''"
proof (intro conjI)
  show "words ''27 de Febrero'' \<noteq> []"
    by (simp add: words_27_febrero)
  show "generate_codigo ''27 de Febrero'' (count_codigo_like []) = Inr ''VG-MAO-2F-00001''"
    by (simp add: generate_codigo_spec abbr_27_febrero count_codigo_like_def zero_padded_5_1)
  show "\<not> matches_code_pattern ''VG-MAO-2F-00001''"
    by code_simp
  show "words ''Sector Los Jardines'' \<noteq> []"
    by (simp add: words_jardines)
  show "generate_codigo ''Sector Los Jardines'' (fixed_count 99999) = Inr ''VG-MAO-SJ-100000''"
    by (simp add: generate_codigo_spec abbr_jardines fixed_count_def zero_padded_def
        str_nat_100000)
  show "\<not> matches_code_pattern ''VG-MAO-SJ-100000''"
    by code_simp
qed

section \<open>update_address\<close>

lemma fold_assign_entry:
  "fold assign (entry Set_provincia f1) r = r\<lparr>provincia := merged f1 (provincia r)\<rparr>"
  "fold assign (entry Set_municipio f1) r = r\<lparr>municipio := merged f1 (municipio r)\<rparr>"
  "fold assign (entry Set_sector f1) r = r\<lparr>sector := merged f1 (sector r)\<rparr>"
  "fold assign (entry Set_calle f1) r = r\<lparr>calle := merged f1 (calle r)\<rparr>"
  "fold assign (entry Set_numero f1) r = r\<lparr>numero := merged f1 (numero r)\<rparr>"
  "fold assign (entry Set_referencia f1) r = r\<lparr>referencia := merged f1 (referencia r)\<rparr>"
  "fold assign (entry Set_lat f2) r = r\<lparr>lat := merged f2 (lat r)\<rparr>"
  "fold assign (entry Set_lng f2) r = r\<lparr>lng := merged f2 (lng r)\<rparr>"
  "fold assign (entry Set_verificado f3) r = r\<lparr>verificado := merged f3 (verificado r)\<rparr>"
  "fold assign (entry Set_fuente f1) r = r\<lparr>fuente := merged f1 (fuente r)\<rparr>"
  "fold assign (entry Set_creado_por f1) r = r\<lparr>creado_por := merged f1 (creado_por r)\<rparr>"
  "fold assign (entry Set_notas f1) r = r\<lparr>notas := merged f1 (notas r)\<rparr>"
  by (simp_all add: entry_def merged_def split: field.split option.split)

text \<open>The loop and the \<^verbatim>\<open>UPDATE\<close> together merge the patch into the row.\<close>

lemma fold_assign_updates:
  "fold assign (updates p) r =
     r\<lparr>provincia := merged (u_provincia p) (provincia r),
       municipio := merged (u_municipio p) (municipio r),
       sector := merged (u_sector p) (sector r),
       calle := merged (u_calle p) (calle r),
       numero := merged (u_numero p) (numero r),
       referencia := merged (u_referencia p) (referencia r),
       lat := merged (u_lat p) (lat r),
       lng := merged (u_lng p) (lng r),
       verificado := merged (u_verificado p) (verificado r),
       fuente := merged (u_fuente p) (fuente r),
       creado_por := merged (u_creado_por p) (creado_por r),
       notas := merged (u_notas p) (notas r)\<rparr>"
  by (simp add: updates_def fold_assign_entry)



lemma entry_empty: "entry mk f = [] \<longleftrightarrow> \<not> applicable f"
  by (simp add: entry_def applicable_def split: field.split option.split)

lemma updates_empty: "updates p = [] \<longleftrightarrow> no_applicable_field p"
  by (simp add: updates_def no_applicable_field_def entry_empty)



lemma update_address_table:
  "snd (update_address c p d) = d \<or> snd (update_address c p d) = sql_update (updates p) c d"
  by (simp add: update_address_def Let_def)






text \<open>
  C6. For an address that exists, an update whose patch has no applicable field
  (every field other than the code is absent or null) is answered by the
  \<^verbatim>\<open>HTTPException\<close> 400 "No hay campos para actualizar", and the table is the
  table before the request.
\<close>

theorem update_address_no_fields:
  assumes "select_by_codigo d c \<noteq> None" and "no_applicable_field p"
  shows "update_address c p d = (Inl (HTTPException 400 No_hay_campos_para_actualizar), d)"
  using assms by (simp add: update_address_def updates_empty)

theorem update_address_no_fields_witness:
  "select_by_codigo [jardines_row] ''VG-MAO-SJ-00001'' \<noteq> None \<and>
   no_applicable_field null_patch \<and>
   update_address ''VG-MAO-SJ-00001'' null_patch [jardines_row] =
     (Inl (HTTPException 400 No_hay_campos_para_actualizar), [jardines_row])"
proof -
  have h1: "select_by_codigo [jardines_row] ''VG-MAO-SJ-00001'' \<noteq> None"
    by (simp add: select_by_codigo_def jardines_row_def)
  have h2: "no_applicable_field null_patch"
    by (simp add: no_applicable_field_def null_patch_def empty_patch_def applicable_def)
  show ?thesis
    using h1 h2 update_address_no_fields [OF h1 h2] by simp
qed

text \<open>
  C9. When every applicable field of the patch has the value that the rows with
  the path code have already, the table after the update is the table before it.
\<close>

theorem update_address_idempotent:
  assumes "\<forall>r\<in>set d. codigo r = c \<longrightarrow> equal_values p r"
  shows "snd (update_address c p d) = d"
proof -
  have keep: "merged f old = old" if "field_holds (\<lambda>v. old = Some v) f" for f and old :: "'x option"
    using that by (cases "(\<lambda>v. old = Some v, f)" rule: field_holds.cases) (simp_all add: merged_def)
  have "fold assign (updates p) r = r" if "equal_values p r" for r
    using that by (simp add: fold_assign_updates equal_values_def keep)
  with assms have "sql_update (updates p) c d = d"
    unfolding sql_update_def by (intro map_idI) auto
  then show ?thesis
    using update_address_table [of c p d] by auto
qed

theorem update_address_idempotent_witness:
  "select_by_codigo [jardines_row] ''VG-MAO-SJ-00001'' = Some jardines_row \<and>
   updates same_patch = [Set_municipio ''Mao'', Set_lat 18.4432] \<and>
   codigo jardines_row = ''VG-MAO-SJ-00001'' \<and> equal_values same_patch jardines_row \<and>
   update_address ''VG-MAO-SJ-00001'' same_patch [jardines_row] =
     (Inr jardines_row, [jardines_row])"
proof -
  have h: "\<forall>r\<in>set [jardines_row]. codigo r = ''VG-MAO-SJ-00001'' \<longrightarrow> equal_values same_patch r"
    by (simp add: equal_values_def same_patch_def empty_patch_def jardines_row_def)
  have sel: "select_by_codigo [jardines_row] ''VG-MAO-SJ-00001'' = Some jardines_row"
    by (simp add: select_by_codigo_def jardines_row_def)
  have ups: "updates same_patch = [Set_municipio ''Mao'', Set_lat 18.4432]"
    by (simp add: updates_def entry_def same_patch_def empty_patch_def)
  have "snd (update_address ''VG-MAO-SJ-00001'' same_patch [jardines_row]) = [jardines_row]"
    using update_address_idempotent [OF h] .
  moreover have "fst (update_address ''VG-MAO-SJ-00001'' same_patch [jardines_row]) =
      fetched (snd (update_address ''VG-MAO-SJ-00001'' same_patch [jardines_row]))
        ''VG-MAO-SJ-00001''"
    by (simp add: update_address_def sel ups Let_def)
  ultimately have "update_address ''VG-MAO-SJ-00001'' same_patch [jardines_row] =
      (Inr jardines_row, [jardines_row])"
    by (simp add: prod_eq_iff fetched_def sel)
  moreover have "codigo jardines_row = ''VG-MAO-SJ-00001''"
    by (simp add: jardines_row_def)
  ultimately show ?thesis
    using h sel ups by simp
qed

section \<open>insert_address\<close>






section \<open>Coordinates of the stored rows\<close>


















section \<open>get_addresses\<close>























section \<open>estimate_ride\<close>

text \<open>
  The argument of the square root is between 0 and 1 whatever the four angles
  are, so that neither \<^verbatim>\<open>math.sqrt\<close> nor \<^verbatim>\<open>math.asin\<close> raises.
\<close>

lemma cos_times_cos_half:
  fixes x y :: real
  shows "cos x * cos y = 1 - (sin ((y - x) / 2))\<^sup>2 - (sin ((x + y) / 2))\<^sup>2"
proof -
  have e: "2 * ((y - x) / 2) = y - x" "2 * ((x + y) / 2) = x + y"
    by simp_all
  have "cos (y - x) = 1 - 2 * (sin ((y - x) / 2))\<^sup>2"
    using cos_double_sin [of "(y - x) / 2"] unfolding e .
  moreover have "cos (x + y) = 1 - 2 * (sin ((x + y) / 2))\<^sup>2"
    using cos_double_sin [of "(x + y) / 2"] unfolding e .
  moreover have "cos x * cos y = (cos (y - x) + cos (x + y)) / 2"
    using cos_times_cos [of y x] by (simp add: mult.commute add.commute)
  ultimately show ?thesis
    by simp
qed

lemma haversine_a_range:
  fixes x y d :: real
  shows "0 \<le> (sin ((y - x) / 2))\<^sup>2 + cos x * cos y * (sin (d / 2))\<^sup>2 \<and>
         (sin ((y - x) / 2))\<^sup>2 + cos x * cos y * (sin (d / 2))\<^sup>2 \<le> 1"
proof -
  define s where "s = (sin ((y - x) / 2))\<^sup>2"
  define t where "t = (sin ((x + y) / 2))\<^sup>2"
  define u where "u = (sin (d / 2))\<^sup>2"
  have s: "0 \<le> s" "s \<le> 1" and t: "0 \<le> t" "t \<le> 1" and u: "0 \<le> u" "u \<le> 1"
    by (simp_all add: s_def t_def u_def abs_square_le_1)
  have a: "(sin ((y - x) / 2))\<^sup>2 + cos x * cos y * (sin (d / 2))\<^sup>2 =
      s * (1 - u) + (1 - t) * u"
    unfolding cos_times_cos_half s_def t_def u_def by (simp add: algebra_simps)
  define p where "p = s * (1 - u)"
  define q where "q = (1 - t) * u"
  have "0 \<le> p" "0 \<le> q"
    using s t u by (simp_all add: p_def q_def)
  moreover have "p \<le> 1 * (1 - u)"
    unfolding p_def using s u by (intro mult_right_mono) simp_all
  moreover have "q \<le> 1 * u"
    unfolding q_def using t u by (intro mult_right_mono) simp_all
  ultimately have "0 \<le> p + q \<and> p + q \<le> 1"
    by simp
  then show ?thesis
    unfolding a p_def q_def .
qed

lemma haversine_total:
  "haversine lat1 lng1 lat2 lng2 =
     Inr (6371 * (2 * arcsin (sqrt ((sin ((lat2 - lat1) / 2))\<^sup>2 +
            cos lat1 * cos lat2 * (sin ((lng2 - lng1) / 2))\<^sup>2))))"
proof -
  let ?a = "(sin ((lat2 - lat1) / 2))\<^sup>2 + cos lat1 * cos lat2 * (sin ((lng2 - lng1) / 2))\<^sup>2"
  have a: "0 \<le> ?a" "?a \<le> 1"
    using haversine_a_range [of lat2 lat1 "lng2 - lng1"] by simp_all
  then have "0 \<le> sqrt ?a" "sqrt ?a \<le> 1"
    by (simp_all add: real_le_lsqrt)
  then have "\<not> sqrt ?a < - 1" "\<not> 1 < sqrt ?a"
    by linarith+
  then show ?thesis
    using a(1) by (simp add: haversine_def math_sqrt_def math_asin_def Let_def)
qed


lemma sin_half_diff_sq:
  fixes x y :: real
  shows "(sin ((y - x) / 2))\<^sup>2 = (sin ((x - y) / 2))\<^sup>2"
proof -
  have "(y - x) / 2 = - ((x - y) / 2)"
    by argo
  then have "sin ((y - x) / 2) = - sin ((x - y) / 2)"
    by (simp only: sin_minus)
  then show ?thesis
    by simp
qed

lemma haversine_sym: "haversine lat1 lng1 lat2 lng2 = haversine lat2 lng2 lat1 lng1"
  by (simp add: haversine_total mult.commute sin_half_diff_sq [of lat1 lat2]
      sin_half_diff_sq [of lng1 lng2])





lemma estimate_ride_found:
  assumes "pickup_codigo data = Some c1" and "select_by_codigo d c1 = Some r1"
    and "lat r1 = Some lat1" and "lng r1 = Some lng1"
    and "dropoff_codigo data = Some c2" and "select_by_codigo d c2 = Some r2"
    and "lat r2 = Some lat2" and "lng r2 = Some lng2"
  shows "estimate_ride data d = Inr (tarifa (spec_distance_km lat1 lng1 lat2 lng2))"
proof -
  have "select_lat_lng d (pickup_codigo data) = Some (Some lat1, Some lng1)"
    and "select_lat_lng d (dropoff_codigo data) = Some (Some lat2, Some lng2)"
    using assms by (simp_all add: select_lat_lng_def select_by_codigo_def)
  moreover have "haversine (lat1 * pi / 180) (lng1 * pi / 180) (lat2 * pi / 180) (lng2 * pi / 180) =
      Inr (spec_distance_km lat1 lng1 lat2 lng2)"
    unfolding haversine_total spec_distance_km_def Let_def ..
  ultimately show ?thesis
    by (simp add: estimate_ride_def radians_def)
qed





lemma estimate_ride_swap:
  "estimate_ride \<lparr>pickup_codigo = a, dropoff_codigo = b\<rparr> d =
   estimate_ride \<lparr>pickup_codigo = b, dropoff_codigo = a\<rparr> d"
proof (cases "select_lat_lng d a")
  case None
  then show ?thesis
    by (simp add: estimate_ride_def split: option.split)
next
  case pa: (Some p)
  show ?thesis
  proof (cases "select_lat_lng d b")
    case None
    with pa show ?thesis
      by (simp add: estimate_ride_def)
  next
    case pb: (Some q)
    show ?thesis
    proof (cases "fst p = None \<or> snd p = None \<or> fst q = None \<or> snd q = None")
      case True
      with pa pb show ?thesis
        by (cases "fst p"; cases "snd p"; cases "fst q"; cases "snd q")
           (simp_all add: estimate_ride_def radians_def)
    next
      case False
      then obtain x1 y1 x2 y2 where xy: "fst p = Some x1" "snd p = Some y1"
        "fst q = Some x2" "snd q = Some y2"
        by auto
      have "haversine (x1 * pi / 180) (y1 * pi / 180) (x2 * pi / 180) (y2 * pi / 180) =
          haversine (x2 * pi / 180) (y2 * pi / 180) (x1 * pi / 180) (y1 * pi / 180)"
        by (rule haversine_sym)
      with pa pb xy show ?thesis
        by (simp add: estimate_ride_def radians_def)
    qed
  qed
qed

text \<open>
  C10. Exchanging the pickup and the dropoff code changes nothing in the answer:
  the same error when one of the two addresses is missing, the same distance,
  minutes, fare and summary otherwise. Real arithmetic is exact here.
\<close>

theorem estimate_ride_symmetric:
  "estimate_ride \<lparr>pickup_codigo = a, dropoff_codigo = b\<rparr> d =
   estimate_ride \<lparr>pickup_codigo = b, dropoff_codigo = a\<rparr> d"
  by (rule estimate_ride_swap)

theorem estimate_ride_symmetric_witness:
  "estimate_ride ride_there ride_table = estimate_ride ride_back ride_table \<and>
   estimate_ride ride_there ride_table =
     Inr (tarifa (spec_distance_km 18.4432 (- 71.7533) 18.45 (- 71.76)))"
proof -
  have "estimate_ride ride_there ride_table = estimate_ride ride_back ride_table"
    unfolding ride_there_def ride_back_def by (rule estimate_ride_symmetric)
  moreover have "estimate_ride ride_there ride_table =
      Inr (tarifa (spec_distance_km 18.4432 (- 71.7533) 18.45 (- 71.76)))"
    by (rule estimate_ride_found [of _ "''VG-MAO-SJ-00001''" _ "ride_table ! 0" _ _
          "''VG-MAO-SJ-00002''" "ride_table ! 1"])
       (simp_all add: ride_there_def select_by_codigo_def ride_table_def jardines_row_def
          taken_row_def)
  ultimately show ?thesis
    by simp
qed

end
